theory Spec2Isabelle
  imports Complex_Main
begin

section \<open>Python numbers: \<open>int\<close> and \<open>decimal.Decimal\<close> at the default context\<close>

text \<open>
  The scripts compute with Python integers (unbounded, modelled as \<^typ>\<open>int\<close>) and with
  \<open>decimal.Decimal\<close>. No script changes the decimal context, so every arithmetic
  operation on a \<open>Decimal\<close> is carried out at the default context: the exact result is
  rounded to \<open>prec = 28\<close> significant digits, ties to even (\<open>ROUND_HALF_EVEN\<close>).
  A finite \<open>Decimal\<close> is a triple of sign, coefficient and exponent with value
  \<open>(-1)^sign * coefficient * 10^exponent\<close>. The exponent limits (\<open>Emax = 999999\<close>,
  \<open>Emin = -999999\<close>), infinities and NaNs are out of reach of the scripts and are not
  modelled. The constructor \<open>Decimal(n)\<close> of an integer is exact.
\<close>

datatype py_error = SystemExit | AssertionError | DivisionByZero | InvalidOperation

datatype decimal = Decimal (dsign: bool) (dint: nat) (dexp: int)

definition prec :: nat where
  "prec = 28"

text \<open>\<open>len(str(n))\<close> for a coefficient \<open>n\<close>.\<close>

fun ndigits :: "nat \<Rightarrow> nat" where
  "ndigits n = (if n < 10 then 1 else Suc (ndigits (n div 10)))"

declare ndigits.simps [simp del]

definition dec_val :: "decimal \<Rightarrow> rat" where
  "dec_val d =
     (if dsign d then - 1 else 1) * of_nat (dint d) *
     (if 0 \<le> dexp d then 10 ^ nat (dexp d) else 1 / 10 ^ nat (- dexp d))"

definition dec_of_int :: "int \<Rightarrow> decimal" where
  "dec_of_int n = Decimal (n < 0) (nat \<bar>n\<bar>) 0"

definition dec_neg :: "decimal \<Rightarrow> decimal" where
  "dec_neg d = Decimal (\<not> dsign d) (dint d) (dexp d)"

text \<open>
  \<open>Decimal._fix\<close>: a coefficient of more than \<open>prec\<close> digits loses its low digits,
  rounded half to even; a carry out of the top digit shifts the exponent once more.
\<close>

definition dec_fix :: "decimal \<Rightarrow> decimal" where
  "dec_fix d =
     (let n = ndigits (dint d) in
      if n \<le> prec then d
      else
        let k = n - prec;
            q = dint d div 10 ^ k;
            r = dint d mod 10 ^ k;
            half = 5 * 10 ^ (k - 1);
            q' = (if half < r \<or> (r = half \<and> odd q) then q + 1 else q)
        in if prec < ndigits q'
           then Decimal (dsign d) (q' div 10) (dexp d + int k + 1)
           else Decimal (dsign d) q' (dexp d + int k))"

definition dec_mul :: "decimal \<Rightarrow> decimal \<Rightarrow> decimal" where
  "dec_mul x y =
     dec_fix (Decimal (dsign x \<noteq> dsign y) (dint x * dint y) (dexp x + dexp y))"

text \<open>
  Addition: both operands are brought to the smaller exponent, the signed coefficients
  are added exactly, and the sum is rounded by \<open>_fix\<close>.
\<close>

definition dec_signed :: "decimal \<Rightarrow> int" where
  "dec_signed d = (if dsign d then - int (dint d) else int (dint d))"

definition dec_add :: "decimal \<Rightarrow> decimal \<Rightarrow> decimal" where
  "dec_add x y =
     (let e = min (dexp x) (dexp y);
          s = dec_signed x * 10 ^ nat (dexp x - e) + dec_signed y * 10 ^ nat (dexp y - e)
      in dec_fix (Decimal (s < 0) (nat \<bar>s\<bar>) e))"

definition dec_sub :: "decimal \<Rightarrow> decimal \<Rightarrow> decimal" where
  "dec_sub x y = dec_add x (dec_neg y)"

text \<open>
  \<open>Decimal.__truediv__\<close>: the quotient is computed to \<open>prec + 1\<close> digits with a
  sticky last digit when the division is inexact; an exact quotient drops trailing zeros
  down to the ideal exponent. Division by zero raises.
\<close>

function strip_zeros :: "nat \<Rightarrow> int \<Rightarrow> int \<Rightarrow> nat \<times> int" where
  "strip_zeros coeff ex ideal_exp =
     (if ex < ideal_exp \<and> coeff mod 10 = 0
      then strip_zeros (coeff div 10) (ex + 1) ideal_exp
      else (coeff, ex))"
  by pat_completeness auto
termination
  by (relation "measure (\<lambda>(c, e, i). nat (i - e))") auto

declare strip_zeros.simps [simp del]

definition dec_div :: "decimal \<Rightarrow> decimal \<Rightarrow> py_error + decimal" where
  "dec_div x y =
     (let sg = (dsign x \<noteq> dsign y) in
      if dint y = 0 then (if dint x = 0 then Inl InvalidOperation else Inl DivisionByZero)
      else if dint x = 0 then Inr (dec_fix (Decimal sg 0 (dexp x - dexp y)))
      else
        let shift = int (ndigits (dint y)) - int (ndigits (dint x)) + int prec + 1;
            ex = dexp x - dexp y - shift;
            num = (if 0 \<le> shift then dint x * 10 ^ nat shift else dint x);
            den = (if 0 \<le> shift then dint y else dint y * 10 ^ nat (- shift));
            coeff = num div den;
            remainder = num mod den;
            ce = (if remainder \<noteq> 0
                  then (if coeff mod 5 = 0 then coeff + 1 else coeff, ex)
                  else strip_zeros coeff ex (dexp x - dexp y))
        in Inr (dec_fix (Decimal sg (fst ce) (snd ce))))"

text \<open>\<open>math.floor\<close> of a \<open>Decimal\<close>: the largest integer not above its value.\<close>

definition dec_floor :: "decimal \<Rightarrow> int" where
  "dec_floor d =
     (if 0 \<le> dexp d then dec_signed d * 10 ^ nat (dexp d)
      else dec_signed d div 10 ^ nat (- dexp d))"


subsection \<open>Dynamically typed numbers\<close>

text \<open>
  Several variables of the scripts hold an \<open>int\<close> on one path and a \<open>Decimal\<close> on
  another (\<open>a_balance = 0\<close> against \<open>a_balance = a_supply * ratio\<close>). An operation
  on two integers is exact integer arithmetic; as soon as one operand is a \<open>Decimal\<close> the
  other is converted exactly and the operation is the decimal one.
\<close>

datatype pynum = PInt int | PDec decimal

fun to_decimal :: "pynum \<Rightarrow> decimal" where
  "to_decimal (PInt n) = dec_of_int n"
| "to_decimal (PDec d) = d"

fun py_add :: "pynum \<Rightarrow> pynum \<Rightarrow> pynum" where
  "py_add (PInt m) (PInt n) = PInt (m + n)"
| "py_add x y = PDec (dec_add (to_decimal x) (to_decimal y))"

fun py_sub :: "pynum \<Rightarrow> pynum \<Rightarrow> pynum" where
  "py_sub (PInt m) (PInt n) = PInt (m - n)"
| "py_sub x y = PDec (dec_sub (to_decimal x) (to_decimal y))"

fun py_abs :: "pynum \<Rightarrow> pynum" where
  "py_abs (PInt n) = PInt \<bar>n\<bar>"
| "py_abs (PDec d) = PDec (dec_fix (Decimal False (dint d) (dexp d)))"

fun py_floor :: "pynum \<Rightarrow> int" where
  "py_floor (PInt n) = n"
| "py_floor (PDec d) = dec_floor d"

text \<open>Truth value of a number: it is not zero.\<close>

fun py_truthy :: "pynum \<Rightarrow> bool" where
  "py_truthy (PInt n) = (n \<noteq> 0)"
| "py_truthy (PDec d) = (dint d \<noteq> 0)"

fun py_val :: "pynum \<Rightarrow> rat" where
  "py_val (PInt n) = of_int n"
| "py_val (PDec d) = dec_val d"

text \<open>\<open>Decimal(1e18)\<close>: the float \<open>1e18\<close> is exactly \<open>10^18\<close>.\<close>

definition dec_1e18 :: decimal where
  "dec_1e18 = Decimal False (10 ^ 18) 0"

text \<open>
  \<open>ousd_value_adjustment\<close>, the same in every script: a token balance is turned
  into credits at one credits-per-token rate and back into tokens at another, with a floor
  after each step.
\<close>

definition ousd_value_adjustment :: "pynum \<Rightarrow> int \<Rightarrow> int \<Rightarrow> py_error + int" where
  "ousd_value_adjustment token_balance from_cpt to_cpt =
     (case dec_div (dec_mul (to_decimal token_balance) (dec_of_int from_cpt)) dec_1e18 of
        Inl e \<Rightarrow> Inl e
      | Inr c \<Rightarrow>
          (let credits = dec_floor c in
           case dec_div (dec_mul (dec_of_int credits) dec_1e18) (dec_of_int to_cpt) of
             Inl e \<Rightarrow> Inl e
           | Inr t \<Rightarrow> Inr (dec_floor t)))"

section \<open>Swap flow classifier (\<open>uniswap_swaps.py\<close>)\<close>

text \<open>
  The arguments of a pair's \<open>Swap\<close> event. For each event of a successful transaction
  the script prints one row; \<open>a_change\<close> is the amount of the tracked asset (token0,
  OUSD) and \<open>b_change\<close> the amount of the counter-asset (token1).
\<close>

record swap_args =
  amount0In :: int
  amount1In :: int
  amount0Out :: int
  amount1Out :: int

definition direction :: "swap_args \<Rightarrow> string" where
  "direction ev = (if amount1Out ev < amount0Out ev then ''left'' else ''right'')"

definition a_change :: "swap_args \<Rightarrow> int" where
  "a_change ev =
     (if direction ev = ''left'' then amount0Out ev - amount0In ev else amount0In ev)"

definition b_change :: "swap_args \<Rightarrow> int" where
  "b_change ev =
     (if direction ev = ''left'' then amount1In ev else amount1Out ev - amount1In ev)"

text \<open>
  The row printed for an event: nothing for a failed transaction (\<open>receipt.status\<close>
  false); otherwise the direction word and the two amounts, the tracked amount passed
  through \<open>ousd_value_adjustment\<close> when a credits-per-token override is given
  (\<open>block_cpt\<close> is the rate read at the event's block).
\<close>

definition swap_row ::
  "int option \<Rightarrow> int \<Rightarrow> bool \<Rightarrow> swap_args \<Rightarrow> (py_error + string \<times> int \<times> int) option" where
  "swap_row credits_per_token block_cpt status ev =
     (if \<not> status then None
      else
        let word = (if direction ev = ''left'' then ''buy'' else ''sell'') in
        case credits_per_token of
          None \<Rightarrow> Some (Inr (word, a_change ev, b_change ev))
        | Some cpt \<Rightarrow>
            (if cpt = 0 then Some (Inr (word, a_change ev, b_change ev))
             else case ousd_value_adjustment (PInt (a_change ev)) block_cpt cpt of
                    Inl e \<Rightarrow> Some (Inl e)
                  | Inr a \<Rightarrow> Some (Inr (word, a, b_change ev))))"

section \<open>Compensation ledger (\<open>transform.py\<close>)\<close>

datatype Direction = LEFT | RIGHT

text \<open>
  \<open>CalcParameters\<close>, with the types of the constructor's defaults: the USD value of
  one ETH is an integer, the other four are \<open>Decimal\<close>s.
\<close>

record CalcParameters =
  split_threshold :: decimal
  ousd_ogn_split :: decimal
  ogn_price_usd :: decimal
  eth_value_usd :: int
  minimum_threshold :: decimal

text \<open>A swap is the tuple \<open>(ousd_value, counter_value, direction)\<close>.\<close>

type_synonym swap = "int \<times> int \<times> Direction"

record Account =
  address :: string
  params :: CalcParameters
  ousd_balance_start :: int
  ousd_balance_end :: int
  usdt_balance_start :: int
  usdt_balance_end :: int
  usdc_balance_start :: int
  usdc_balance_end :: int
  weth_balance_start :: int
  weth_balance_end :: int
  ousd_lp_start :: int
  ousd_lp_end :: int
  usdt_lp_start :: int
  usdt_lp_end :: int
  usdc_lp_start :: int
  usdc_lp_end :: int
  weth_lp_start :: int
  weth_lp_end :: int
  usdt_swaps :: "swap list"
  usdc_swaps :: "swap list"
  weth_swaps :: "swap list"
  virgox_proceeds :: "int list"

definition eth_to_usd :: "Account \<Rightarrow> int \<Rightarrow> int" where
  "eth_to_usd acct eth_value = eth_value * eth_value_usd (params acct)"

text \<open>
  The six sums over the swap lists all have the shape
  \<open>sum([int(x[1]) if x[2] == D else 0 for x in swaps])\<close>.
\<close>

definition swap_sum :: "Direction \<Rightarrow> swap list \<Rightarrow> int" where
  "swap_sum D swaps = sum_list (map (\<lambda>x. if snd (snd x) = D then fst (snd x) else 0) swaps)"

definition usdt_swap_in :: "Account \<Rightarrow> int" where
  "usdt_swap_in acct = swap_sum RIGHT (usdt_swaps acct)"

definition usdt_swap_out :: "Account \<Rightarrow> int" where
  "usdt_swap_out acct = swap_sum LEFT (usdt_swaps acct)"

definition usdc_swap_in :: "Account \<Rightarrow> int" where
  "usdc_swap_in acct = swap_sum RIGHT (usdc_swaps acct)"

definition usdc_swap_out :: "Account \<Rightarrow> int" where
  "usdc_swap_out acct = swap_sum LEFT (usdc_swaps acct)"

definition weth_swap_in :: "Account \<Rightarrow> int" where
  "weth_swap_in acct = swap_sum RIGHT (weth_swaps acct)"

definition weth_swap_out :: "Account \<Rightarrow> int" where
  "weth_swap_out acct = swap_sum LEFT (weth_swaps acct)"

definition trading_gain_usdt :: "Account \<Rightarrow> int" where
  "trading_gain_usdt acct =
     (if ousd_balance_start acct + ousd_lp_start acct \<le> 0 then 0
      else usdt_swap_in acct - usdt_swap_out acct)"

definition trading_gain_usdc :: "Account \<Rightarrow> int" where
  "trading_gain_usdc acct =
     (if ousd_balance_start acct + ousd_lp_start acct \<le> 0 then 0
      else usdc_swap_in acct - usdc_swap_out acct)"

definition trading_gain_weth :: "Account \<Rightarrow> int" where
  "trading_gain_weth acct =
     (if ousd_balance_start acct + ousd_lp_start acct \<le> 0 then 0
      else weth_swap_in acct - weth_swap_out acct)"

definition trading_gain_virgox :: "Account \<Rightarrow> int" where
  "trading_gain_virgox acct =
     (if virgox_proceeds acct = [] then 0 else sum_list (virgox_proceeds acct))"

text \<open>\<open>convert_decimals\<close> is only called with \<open>decin = 6\<close> and \<open>decout = 18\<close>.\<close>

definition convert_decimals :: "int \<Rightarrow> nat \<Rightarrow> nat \<Rightarrow> int" where
  "convert_decimals val decin decout = val * 10 ^ (decout - decin)"

definition trading_gain_total_usd :: "Account \<Rightarrow> int" where
  "trading_gain_total_usd acct =
     convert_decimals (trading_gain_usdt acct) 6 18
     + convert_decimals (trading_gain_usdc acct) 6 18
     + eth_to_usd acct (trading_gain_weth acct)
     + trading_gain_virgox acct"

definition eligible_balance_usd :: "Account \<Rightarrow> int" where
  "eligible_balance_usd acct =
     (let diff = ousd_balance_start acct + ousd_lp_start acct
                 - max (trading_gain_total_usd acct) 0
      in if of_int diff < dec_val (minimum_threshold (params acct)) then 0 else diff)"


section \<open>Participant discovery\<close>

text \<open>
  Each extractor first collects its \<open>addresses_of_interest\<close> from the event logs of
  the pool. The list starts empty and only ever grows by \<open>append\<close>.
\<close>

definition ZERO_ADDRESS :: string where
  "ZERO_ADDRESS = ''0x0000000000000000000000000000000000000000''"

definition ADD_LIQUDITY_SIG :: string where
  "ADD_LIQUDITY_SIG = ''0xe8e33700''"

definition ADD_LIQUDITY_ETH_SIG :: string where
  "ADD_LIQUDITY_ETH_SIG = ''0xf305d719''"

definition ZAP_IN_ETH_SIG :: string where
  "ZAP_IN_ETH_SIG = ''0x1d572320''"

text \<open>\<open>s.startswith(p)\<close>\<close>

fun startswith :: "string \<Rightarrow> string \<Rightarrow> bool" where
  "startswith s [] = True"
| "startswith [] (p # ps) = False"
| "startswith (c # s) (p # ps) = (c = p \<and> startswith s ps)"

text \<open>
  A \<open>Mint\<close> event together with the transaction fetched by its hash: the logged
  \<open>args.sender\<close>, the transaction's \<open>input\<close> and its \<open>from\<close> field, which the
  scripts read with \<open>tx.get('from', minter)\<close>.
\<close>

record mint_event =
  args_sender :: string
  tx_input :: string
  tx_from :: "string option"

definition lp_addr :: "mint_event \<Rightarrow> string" where
  "lp_addr mint = (case tx_from mint of Some sender \<Rightarrow> sender | None \<Rightarrow> args_sender mint)"

subsection \<open>\<open>uniswap_lps.py\<close> and \<open>sushiswap_lps.py\<close>\<close>

definition uniswap_known_origin :: "string \<Rightarrow> bool" where
  "uniswap_known_origin inp \<longleftrightarrow>
     startswith inp ADD_LIQUDITY_SIG \<or> startswith inp ADD_LIQUDITY_ETH_SIG"

definition sushiswap_known_origin :: "string \<Rightarrow> bool" where
  "sushiswap_known_origin inp \<longleftrightarrow>
     startswith inp ADD_LIQUDITY_SIG \<or> startswith inp ADD_LIQUDITY_ETH_SIG
     \<or> startswith inp ZAP_IN_ETH_SIG"

text \<open>
  The loop over the \<open>Mint\<close> events; \<open>sys.exit(1)\<close> on the first transaction whose
  input starts with none of the known signatures. The two scripts differ only in the
  set of signatures.
\<close>

fun mints_loop :: "(string \<Rightarrow> bool) \<Rightarrow> mint_event list \<Rightarrow> string list \<Rightarrow> py_error + string list" where
  "mints_loop known [] addresses_of_interest = Inr addresses_of_interest"
| "mints_loop known (mint # mints) addresses_of_interest =
     (if \<not> known (tx_input mint) then Inl SystemExit
      else if lp_addr mint \<noteq> ZERO_ADDRESS \<and> lp_addr mint \<notin> set addresses_of_interest
      then mints_loop known mints (addresses_of_interest @ [lp_addr mint])
      else mints_loop known mints addresses_of_interest)"

text \<open>The loop over the \<open>Transfer\<close> events, on their \<open>args.to\<close>.\<close>

fun transfers_loop :: "string list \<Rightarrow> string list \<Rightarrow> string list" where
  "transfers_loop [] addresses_of_interest = addresses_of_interest"
| "transfers_loop (to_address # transfers) addresses_of_interest =
     (if to_address \<noteq> ZERO_ADDRESS \<and> to_address \<notin> set addresses_of_interest
      then transfers_loop transfers (addresses_of_interest @ [to_address])
      else transfers_loop transfers addresses_of_interest)"

definition uniswap_discovery :: "mint_event list \<Rightarrow> string list \<Rightarrow> py_error + string list" where
  "uniswap_discovery mints transfers =
     (case mints_loop uniswap_known_origin mints [] of
        Inl e \<Rightarrow> Inl e
      | Inr addresses_of_interest \<Rightarrow> Inr (transfers_loop transfers addresses_of_interest))"

definition sushiswap_discovery :: "mint_event list \<Rightarrow> string list \<Rightarrow> py_error + string list" where
  "sushiswap_discovery mints transfers =
     (case mints_loop sushiswap_known_origin mints [] of
        Inl e \<Rightarrow> Inl e
      | Inr addresses_of_interest \<Rightarrow> Inr (transfers_loop transfers addresses_of_interest))"

subsection \<open>\<open>mooniswap_lps.py\<close> and \<open>snowswap_stakers.py\<close>\<close>

text \<open>
  These two scripts guard the append with \<open>if account and account not in
  addresses_of_interest\<close>: the address read from the event (\<open>None\<close> when the field is
  missing) only has to be truthy, that is, a non-empty string.
\<close>

fun accounts_loop :: "string option list \<Rightarrow> string list \<Rightarrow> string list" where
  "accounts_loop [] addresses_of_interest = addresses_of_interest"
| "accounts_loop (None # events) addresses_of_interest =
     accounts_loop events addresses_of_interest"
| "accounts_loop (Some account # events) addresses_of_interest =
     (if account \<noteq> [] \<and> account \<notin> set addresses_of_interest
      then accounts_loop events (addresses_of_interest @ [account])
      else accounts_loop events addresses_of_interest)"

definition mooniswap_discovery :: "string option list \<Rightarrow> string option list \<Rightarrow> string list" where
  "mooniswap_discovery deposits transfers = accounts_loop transfers (accounts_loop deposits [])"

definition snowswap_discovery :: "string option list \<Rightarrow> string list" where
  "snowswap_discovery stakes = accounts_loop stakes []"

text \<open>
  The order of first occurrence: what is left of a list when every later repetition of
  an element is dropped.
\<close>

definition first_seen :: "'a list \<Rightarrow> 'a list" where
  "first_seen xs = rev (remdups (rev xs))"

text \<open>The addresses of a list of events that pass the truthiness guard.\<close>

definition truthy_accounts :: "string option list \<Rightarrow> string list" where
  "truthy_accounts es =
     concat (map (\<lambda>e. case e of None \<Rightarrow> [] | Some a \<Rightarrow> if a = [] then [] else [a]) es)"

section \<open>Compensation split (\<open>transform.py\<close>, continued)\<close>

text \<open>
  The local variables \<open>above_split\<close> and \<open>ogn_usd_value\<close> of the two compensation
  properties. \<open>Decimal(eligible)\<close> is exact; the subtraction and the product are
  decimal operations at the default context.
\<close>

definition above_split :: "Account \<Rightarrow> decimal" where
  "above_split acct =
     dec_sub (dec_of_int (eligible_balance_usd acct)) (split_threshold (params acct))"

definition adjusted_ousd_compensation :: "Account \<Rightarrow> int" where
  "adjusted_ousd_compensation acct =
     (let eligible = eligible_balance_usd acct in
      if of_int eligible \<le> dec_val (split_threshold (params acct)) then eligible
      else dec_floor (dec_add (split_threshold (params acct))
                       (dec_mul (above_split acct) (ousd_ogn_split (params acct)))))"

definition ogn_usd_value :: "Account \<Rightarrow> decimal" where
  "ogn_usd_value acct =
     dec_sub (above_split acct)
       (dec_of_int (dec_floor (dec_mul (above_split acct) (ousd_ogn_split (params acct)))))"

text \<open>
  \<open>adjusted_ogn_compensation\<close> raises \<open>AssertionError\<close> when its sanity check
  fails, and the decimal division raises when the OGN price is zero.
\<close>

definition adjusted_ogn_compensation :: "Account \<Rightarrow> py_error + int" where
  "adjusted_ogn_compensation acct =
     (let eligible = eligible_balance_usd acct in
      if of_int eligible \<le> dec_val (split_threshold (params acct)) then Inr 0
      else if dec_val (dec_add (ogn_usd_value acct)
                        (dec_of_int (adjusted_ousd_compensation acct)))
              \<noteq> of_int (eligible_balance_usd acct)
      then Inl AssertionError
      else case dec_div (ogn_usd_value acct) (ogn_price_usd (params acct)) of
             Inl e \<Rightarrow> Inl e
           | Inr q \<Rightarrow> Inr (dec_floor (dec_mul q dec_1e18)))"

text \<open>
  \<open>to_list\<close>: the row of an account. The four human-readable columns are the
  \<open>Decimal\<close>s handed to \<open>locale.currency\<close> (whose result depends on the locale of
  the machine and is not modelled); the three raw columns are \<open>Decimal(n)\<close> of the
  integers. \<open>Decimal(1.25)\<close> is exactly \<open>1.25\<close>.
\<close>

definition dec_1_25 :: decimal where
  "dec_1_25 = Decimal False 125 (- 2)"

record compensation_row =
  row_address :: string
  eligible_ousd_value_human :: decimal
  ousd_compensation_human :: decimal
  ogn_compensation_w_interest_human :: decimal
  ogn_compensation_human :: decimal
  eligible_ousd_value :: decimal
  ousd_compensation :: decimal
  ogn_compensation :: decimal

definition bind_err :: "py_error + 'a \<Rightarrow> ('a \<Rightarrow> py_error + 'b) \<Rightarrow> py_error + 'b" where
  "bind_err r f = (case r of Inl e \<Rightarrow> Inl e | Inr x \<Rightarrow> f x)"

definition to_list :: "Account \<Rightarrow> py_error + compensation_row" where
  "to_list acct =
     bind_err (dec_div (dec_of_int (eligible_balance_usd acct)) dec_1e18) (\<lambda>c1.
     bind_err (dec_div (dec_of_int (adjusted_ousd_compensation acct)) dec_1e18) (\<lambda>c2.
     bind_err (adjusted_ogn_compensation acct) (\<lambda>ogn.
     bind_err (dec_div (dec_mul (dec_of_int ogn) dec_1_25) dec_1e18) (\<lambda>c3.
     bind_err (dec_div (dec_of_int ogn) dec_1e18) (\<lambda>c4.
       Inr \<lparr>row_address = address acct,
            eligible_ousd_value_human = c1,
            ousd_compensation_human = c2,
            ogn_compensation_w_interest_human = c3,
            ogn_compensation_human = c4,
            eligible_ousd_value = dec_of_int (eligible_balance_usd acct),
            ousd_compensation = dec_of_int (adjusted_ousd_compensation acct),
            ogn_compensation = dec_of_int ogn\<rparr>)))))"

text \<open>
  The parameters that \<open>main\<close> passes: a split threshold of \<open>1000e18\<close>, a quarter in
  OUSD, an OGN price of \<open>1492e14\<close>, a minimum of \<open>1e16\<close>. \<open>main\<close> gives the ETH
  price as the float \<open>578.24\<close>; the model keeps the integer type of the
  constructor's default, \<open>int(600)\<close>, and no theorem below depends on its value.
\<close>

definition main_params :: CalcParameters where
  "main_params =
     \<lparr>split_threshold = Decimal False (10 ^ 21) 0,
      ousd_ogn_split = Decimal False 25 (- 2),
      ogn_price_usd = Decimal False (1492 * 10 ^ 14) 0,
      eth_value_usd = 600,
      minimum_threshold = Decimal False (10 ^ 16) 0\<rparr>"

text \<open>An account with a pre-incident base balance and nothing else.\<close>

definition holder :: "int \<Rightarrow> Account" where
  "holder bal =
     \<lparr>address = ''0xholder'', params = main_params,
      ousd_balance_start = bal, ousd_balance_end = 0,
      usdt_balance_start = 0, usdt_balance_end = 0,
      usdc_balance_start = 0, usdc_balance_end = 0,
      weth_balance_start = 0, weth_balance_end = 0,
      ousd_lp_start = 0, ousd_lp_end = 0,
      usdt_lp_start = 0, usdt_lp_end = 0,
      usdc_lp_start = 0, usdc_lp_end = 0,
      weth_lp_start = 0, weth_lp_end = 0,
      usdt_swaps = [], usdc_swaps = [], weth_swaps = [],
      virgox_proceeds = []\<rparr>"

section \<open>Properties of the swap flow classifier\<close>

lemma direction_cases:
  "direction ev = ''left'' \<longleftrightarrow> amount1Out ev < amount0Out ev"
  by (simp add: direction_def)

text \<open>
  Claim C7, as stated, fails: in a sale of the tracked asset with inbound dust on both
  sides the tracked-asset figure is the raw \<open>amount0In\<close>, not
  \<open>amount0Out - amount0In\<close>; in a purchase the counter-asset figure is the raw
  \<open>amount1In\<close>, not \<open>amount1Out - amount1In\<close>.
\<close>

theorem C7_counterexample:
  "a_change \<lparr>amount0In = 100, amount1In = 2, amount0Out = 1, amount1Out = 90\<rparr> = 100
   \<and> amount0Out \<lparr>amount0In = 100, amount1In = 2, amount0Out = 1, amount1Out = 90\<rparr>
       - amount0In \<lparr>amount0In = 100, amount1In = 2, amount0Out = 1, amount1Out = 90\<rparr> = - 99
   \<and> b_change \<lparr>amount0In = 2, amount1In = 90, amount0Out = 100, amount1Out = 1\<rparr> = 90
   \<and> amount1Out \<lparr>amount0In = 2, amount1In = 90, amount0Out = 100, amount1Out = 1\<rparr>
       - amount1In \<lparr>amount0In = 2, amount1In = 90, amount0Out = 100, amount1Out = 1\<rparr> = - 89"
  by (simp add: a_change_def b_change_def direction_def)

text \<open>
  Claim C7, amended: for every swap event of a successful transaction (no
  credits-per-token override) the classifier emits one row. When more of the tracked
  asset than of the counter-asset leaves the pool the row is a \<open>buy\<close>: the tracked
  change is \<open>amount0Out - amount0In\<close> (netted) and the counter change is the raw
  \<open>amount1In\<close>. Otherwise it is a \<open>sell\<close>: the tracked change is the raw
  \<open>amount0In\<close> and the counter change is \<open>amount1Out - amount1In\<close> (netted).
  Only the side leaving the pool is netted against inbound dust.
\<close>

theorem C7_out_side_netted_only:
  "swap_row None block_cpt True ev =
     Some (Inr (if amount1Out ev < amount0Out ev
                then (''buy'', amount0Out ev - amount0In ev, amount1In ev)
                else (''sell'', amount0In ev, amount1Out ev - amount1In ev)))"
  by (simp add: swap_row_def a_change_def b_change_def direction_def)

section \<open>Properties of the compensation ledger\<close>

lemma swap_sum_filter:
  "swap_sum D swaps = sum_list (map (\<lambda>x. fst (snd x)) (filter (\<lambda>x. snd (snd x) = D) swaps))"
  unfolding swap_sum_def by (induction swaps) simp_all

text \<open>
  Claim C6: for each of the three counter-assets (USDT, USDC, WETH) the net swap flow of
  an account is the total of the counter-asset amounts of its sales of OUSD (inflow)
  minus the total of the counter-asset amounts of its purchases of OUSD (outflow) when
  the pre-incident position (base balance plus pooled balance) is positive, and \<open>0\<close>
  when that position is zero or negative.
\<close>

theorem C6_net_swap_flow:
  "trading_gain_usdt acct =
     (if 0 < ousd_balance_start acct + ousd_lp_start acct
      then sum_list (map (\<lambda>x. fst (snd x)) (filter (\<lambda>x. snd (snd x) = RIGHT) (usdt_swaps acct)))
         - sum_list (map (\<lambda>x. fst (snd x)) (filter (\<lambda>x. snd (snd x) = LEFT) (usdt_swaps acct)))
      else 0)
   \<and> trading_gain_usdc acct =
     (if 0 < ousd_balance_start acct + ousd_lp_start acct
      then sum_list (map (\<lambda>x. fst (snd x)) (filter (\<lambda>x. snd (snd x) = RIGHT) (usdc_swaps acct)))
         - sum_list (map (\<lambda>x. fst (snd x)) (filter (\<lambda>x. snd (snd x) = LEFT) (usdc_swaps acct)))
      else 0)
   \<and> trading_gain_weth acct =
     (if 0 < ousd_balance_start acct + ousd_lp_start acct
      then sum_list (map (\<lambda>x. fst (snd x)) (filter (\<lambda>x. snd (snd x) = RIGHT) (weth_swaps acct)))
         - sum_list (map (\<lambda>x. fst (snd x)) (filter (\<lambda>x. snd (snd x) = LEFT) (weth_swaps acct)))
      else 0)"
  by (simp add: trading_gain_usdt_def trading_gain_usdc_def trading_gain_weth_def
      usdt_swap_in_def usdt_swap_out_def usdc_swap_in_def usdc_swap_out_def
      weth_swap_in_def weth_swap_out_def swap_sum_filter)

section \<open>Properties of participant discovery\<close>


lemma remdups_snoc:
  "remdups (ys @ [x]) = filter (\<lambda>y. y \<noteq> x) (remdups ys) @ [x]"
  by (induction ys) auto

lemma first_seen_Nil [simp]: "first_seen [] = []"
  by (simp add: first_seen_def)

lemma first_seen_Cons [simp]:
  "first_seen (x # xs) = x # filter (\<lambda>y. y \<noteq> x) (first_seen xs)"
  by (simp add: first_seen_def remdups_snoc rev_filter)

lemma set_first_seen [simp]: "set (first_seen xs) = set xs"
  by (simp add: first_seen_def)

lemma distinct_first_seen [simp]: "distinct (first_seen xs)"
  by (simp add: first_seen_def)

lemma transfers_loop_eq:
  "transfers_loop ts aoi =
     aoi @ filter (\<lambda>a. a \<notin> set aoi) (first_seen (filter (\<lambda>a. a \<noteq> ZERO_ADDRESS) ts))"
proof (induction ts arbitrary: aoi)
  case Nil
  show ?case by simp
next
  case (Cons t ts)
  have in_aoi: "filter (\<lambda>a. a \<notin> set aoi) (filter (\<lambda>y. y \<noteq> t) zs) = filter (\<lambda>a. a \<notin> set aoi) zs"
    if "t \<in> set aoi" for zs
    using that by (induction zs) auto
  have new: "filter (\<lambda>a. a \<notin> set (aoi @ [t])) zs = filter (\<lambda>a. a \<notin> set aoi) (filter (\<lambda>y. y \<noteq> t) zs)"
    for zs
    by (induction zs) auto
  show ?case
    using Cons.IH [of aoi] Cons.IH [of "aoi @ [t]"] in_aoi new
    by simp
qed

lemma mints_loop_abort:
  "mints_loop known ms aoi = Inl e \<longleftrightarrow> e = SystemExit \<and> (\<exists>m\<in>set ms. \<not> known (tx_input m))"
  by (induction ms arbitrary: aoi) auto

lemma mints_loop_known:
  "\<forall>m\<in>set ms. known (tx_input m) \<Longrightarrow>
   mints_loop known ms aoi = Inr (transfers_loop (map lp_addr ms) aoi)"
  by (induction ms arbitrary: aoi) auto

lemma accounts_loop_eq:
  "accounts_loop es aoi =
     aoi @ filter (\<lambda>a. a \<notin> set aoi) (first_seen (truthy_accounts es))"
proof (induction es aoi rule: accounts_loop.induct)
  case (1 aoi)
  show ?case by (simp add: truthy_accounts_def)
next
  case (2 es aoi)
  then show ?case by (simp add: truthy_accounts_def)
next
  case (3 account es aoi)
  have in_aoi: "filter (\<lambda>a. a \<notin> set aoi) (filter (\<lambda>y. y \<noteq> account) zs) = filter (\<lambda>a. a \<notin> set aoi) zs"
    if "account \<in> set aoi" for zs
    using that by (induction zs) auto
  have new: "filter (\<lambda>a. a \<notin> set (aoi @ [account])) zs = filter (\<lambda>a. a \<notin> set aoi) (filter (\<lambda>y. y \<noteq> account) zs)"
    for zs
    by (induction zs) auto
  show ?case
    using 3 in_aoi new by (simp add: truthy_accounts_def)
qed


lemma uniswap_discovery_ok:
  assumes "\<forall>m\<in>set mints. uniswap_known_origin (tx_input m)"
  shows "uniswap_discovery mints transfers =
    Inr (first_seen (filter (\<lambda>a. a \<noteq> ZERO_ADDRESS) (map lp_addr mints @ transfers)))"
proof -
  have "transfers_loop transfers (transfers_loop (map lp_addr mints) []) =
        transfers_loop (map lp_addr mints @ transfers) []"
    for mints
  proof -
    have "transfers_loop (xs @ ys) aoi = transfers_loop ys (transfers_loop xs aoi)" for xs ys aoi
      by (induction xs arbitrary: aoi) auto
    then show ?thesis by simp
  qed
  then show ?thesis
    using assms by (simp add: uniswap_discovery_def mints_loop_known transfers_loop_eq)
qed

text \<open>
  Claim C8: during participant discovery of the Uniswap and Sushiswap extractors, as soon
  as one \<open>Mint\<close> event comes from a transaction whose input starts with none of the
  enumerated add-liquidity signatures the whole run exits; when every event is
  recognised, the addresses recorded are the transactions' senders (the \<open>from\<close>
  field, which every transaction returned by a node carries), in order of first
  occurrence and without the zero address. The event's logged \<open>sender\<close> plays no
  part.
\<close>

theorem C8_unrecognized_origin_aborts:
  assumes "\<forall>m\<in>set mints. tx_from m \<noteq> None"
  shows "(if \<forall>m\<in>set mints. uniswap_known_origin (tx_input m)
          then mints_loop uniswap_known_origin mints [] =
               Inr (first_seen (filter (\<lambda>a. a \<noteq> ZERO_ADDRESS) (map (\<lambda>m. the (tx_from m)) mints)))
          else uniswap_discovery mints transfers = Inl SystemExit)
       \<and> (if \<forall>m\<in>set mints. sushiswap_known_origin (tx_input m)
          then mints_loop sushiswap_known_origin mints [] =
               Inr (first_seen (filter (\<lambda>a. a \<noteq> ZERO_ADDRESS) (map (\<lambda>m. the (tx_from m)) mints)))
          else sushiswap_discovery mints transfers = Inl SystemExit)"
proof -
  have senders: "map lp_addr mints = map (\<lambda>m. the (tx_from m)) mints"
    using assms by (auto simp: lp_addr_def split: option.splits)
  have ok: "mints_loop known mints [] =
      Inr (first_seen (filter (\<lambda>a. a \<noteq> ZERO_ADDRESS) (map (\<lambda>m. the (tx_from m)) mints)))"
    if "\<forall>m\<in>set mints. known (tx_input m)" for known
    using that by (simp add: mints_loop_known transfers_loop_eq senders [symmetric])
  have bad: "mints_loop known mints [] = Inl SystemExit"
    if "\<not> (\<forall>m\<in>set mints. known (tx_input m))" for known
    using that mints_loop_abort [of known mints "[]" SystemExit] by blast
  show ?thesis
    using ok [of uniswap_known_origin] ok [of sushiswap_known_origin]
      bad [of uniswap_known_origin] bad [of sushiswap_known_origin]
    by (simp add: uniswap_discovery_def sushiswap_discovery_def)
qed

theorem C8_witness:
  "mints_loop uniswap_known_origin
       [\<lparr>args_sender = ''0xrouter'', tx_input = ''0xe8e33700ffff'', tx_from = Some ''0xalice''\<rparr>,
        \<lparr>args_sender = ''0xrouter'', tx_input = ''0xf305d71900'', tx_from = Some ''0xbob''\<rparr>,
        \<lparr>args_sender = ''0xrouter'', tx_input = ''0xe8e33700'', tx_from = Some ''0xalice''\<rparr>] []
     = Inr [''0xalice'', ''0xbob'']"
  using C8_unrecognized_origin_aborts
    [of "[\<lparr>args_sender = ''0xrouter'', tx_input = ''0xe8e33700ffff'', tx_from = Some ''0xalice''\<rparr>,
          \<lparr>args_sender = ''0xrouter'', tx_input = ''0xf305d71900'', tx_from = Some ''0xbob''\<rparr>,
          \<lparr>args_sender = ''0xrouter'', tx_input = ''0xe8e33700'', tx_from = Some ''0xalice''\<rparr>]" "[]"]
  by (simp add: uniswap_known_origin_def sushiswap_known_origin_def ADD_LIQUDITY_SIG_def
      ADD_LIQUDITY_ETH_SIG_def ZAP_IN_ETH_SIG_def ZERO_ADDRESS_def)

text \<open>
  Claim C9 at a failing input: the Mooniswap extractor sees a \<open>Transfer\<close> of LP
  tokens to the zero address (a burn) and the Snowswap extractor a stake event of the
  zero address. The guard \<open>if account and \<dots>\<close> lets the zero address through, so it
  ends up in the participant set, although \<open>ZERO_ADDRESS\<close> is defined in both
  scripts and the Uniswap and Sushiswap extractors exclude it.
\<close>

theorem C9_zero_address_in_mooniswap_set:
  "mooniswap_discovery [Some ''0xalice''] [Some ''0xalice'', Some ZERO_ADDRESS]
     = [''0xalice'', ZERO_ADDRESS]
   \<and> snowswap_discovery [Some ZERO_ADDRESS] = [ZERO_ADDRESS]"
  by (simp add: mooniswap_discovery_def snowswap_discovery_def ZERO_ADDRESS_def)

text \<open>
  For the Uniswap extractor (and, with its own signatures, the Sushiswap one) the
  participant list is duplicate-free, free of the zero address, and in order of first
  occurrence over mint senders followed by transfer recipients.
\<close>

lemma uniswap_discovery_set:
  assumes "uniswap_discovery mints transfers = Inr aoi"
  shows "distinct aoi \<and> ZERO_ADDRESS \<notin> set aoi
    \<and> aoi = first_seen (filter (\<lambda>a. a \<noteq> ZERO_ADDRESS) (map lp_addr mints @ transfers))"
proof -
  have "\<forall>m\<in>set mints. uniswap_known_origin (tx_input m)"
    using assms mints_loop_abort [of uniswap_known_origin mints "[]" SystemExit]
    by (auto simp: uniswap_discovery_def split: sum.splits)
  then have "aoi = first_seen (filter (\<lambda>a. a \<noteq> ZERO_ADDRESS) (map lp_addr mints @ transfers))"
    using assms uniswap_discovery_ok by simp
  then show ?thesis
    by (metis (mono_tags, lifting) distinct_first_seen mem_Collect_eq set_filter set_first_seen)
qed

text \<open>
  The Mooniswap list is the order of first occurrence of all truthy addresses; the zero
  address is among them whenever an event names it.
\<close>

lemma mooniswap_discovery_set:
  "mooniswap_discovery deposits transfers = first_seen (truthy_accounts (deposits @ transfers))"
proof -
  have "accounts_loop (xs @ ys) aoi = accounts_loop ys (accounts_loop xs aoi)" for xs ys aoi
    by (induction xs aoi rule: accounts_loop.induct) auto
  then have "mooniswap_discovery deposits transfers = accounts_loop (deposits @ transfers) []"
    by (simp add: mooniswap_discovery_def)
  then show ?thesis
    by (simp add: accounts_loop_eq)
qed

end
